theory Spec2Isabelle
  imports Complex_Main
begin

section \<open>JavaScript data values\<close>

text \<open>
  The values that flow through \<^verbatim>\<open>server.js\<close> are JavaScript data values: what
  \<^verbatim>\<open>JSON.parse\<close> returns, what the completion client returns or throws, and
  \<^verbatim>\<open>undefined\<close>. An object is the list of its own properties; functions, getters and
  proxies are outside the model. Numbers are IEEE doubles in JavaScript; the program never
  computes with one, it only tests a number for truthiness and converts it to a string, so
  the number type is a parameter \<open>'n\<close> and these two operations come with the
  environment.
\<close>

datatype 'n jsval =
    JUndefined
  | JNull
  | JBool bool
  | JNum 'n
  | JStr string
  | JArr "'n jsval list"
  | JObj "(string \<times> 'n jsval) list"

text \<open>
  A \<^verbatim>\<open>TypeError\<close> raised by the engine, as the object the \<^verbatim>\<open>catch\<close> clause
  sees: its own property \<^verbatim>\<open>message\<close>. The wording of the messages is the engine's
  (V8's is used here).
\<close>

definition TypeError :: "string \<Rightarrow> 'n jsval" where
  "TypeError msg = JObj [(''message'', JStr msg)]"

text \<open>A computation that may throw: \<open>Inl\<close> carries the thrown value.\<close>

fun bindE :: "'e + 'a \<Rightarrow> ('a \<Rightarrow> 'e + 'b) \<Rightarrow> 'e + 'b" where
  "bindE (Inl e) f = Inl e"
| "bindE (Inr v) f = f v"

text \<open>Running a loop body over the elements in order: the first throw ends the loop.\<close>

fun sequence :: "('e + 'a) list \<Rightarrow> 'e + 'a list" where
  "sequence [] = Inr []"
| "sequence (x # xs) =
     (case x of
        Inl e \<Rightarrow> Inl e
      | Inr v \<Rightarrow> (case sequence xs of Inl e \<Rightarrow> Inl e | Inr vs \<Rightarrow> Inr (v # vs)))"

fun join_strings :: "string \<Rightarrow> string list \<Rightarrow> string" where
  "join_strings sep [] = []"
| "join_strings sep [x] = x"
| "join_strings sep (x # y # ys) = x @ sep @ join_strings sep (y # ys)"

subsection \<open>Requests to the completion service\<close>

record content_part =
  part_type :: string
  part_text :: string

record message =
  role :: string
  content :: "content_part list"

record preset =
  model :: string
  temperature :: rat
  max_output_tokens :: nat

record create_params = preset +
  input :: "message list"

subsection \<open>The environment of a request\<close>

text \<open>
  Everything the handler reads from outside: the file system (\<^verbatim>\<open>fs.readFile\<close>, with
  the path relative to the working directory), \<^verbatim>\<open>JSON.parse\<close>, the completion client
  (\<^verbatim>\<open>client.responses.create\<close>), and the two operations on numbers. A call that
  throws or rejects returns \<open>Inl\<close> of the thrown value.
\<close>

record 'n env =
  readFile :: "string \<Rightarrow> 'n jsval + string"
  JSON_parse :: "string \<Rightarrow> 'n jsval + 'n jsval"
  responses_create :: "create_params \<Rightarrow> 'n jsval + 'n jsval"
  number_to_boolean :: "'n \<Rightarrow> bool"
  number_to_string :: "'n \<Rightarrow> string"

subsection \<open>The operations of the language the program uses\<close>

text \<open>\<^verbatim>\<open>Boolean(v)\<close>, the test of \<^verbatim>\<open>||\<close> and of \<^verbatim>\<open>filter(Boolean)\<close>.\<close>

fun truthy :: "'n env \<Rightarrow> 'n jsval \<Rightarrow> bool" where
  "truthy env JUndefined = False"
| "truthy env JNull = False"
| "truthy env (JBool b) = b"
| "truthy env (JNum n) = number_to_boolean env n"
| "truthy env (JStr s) = (s \<noteq> [])"
| "truthy env (JArr xs) = True"
| "truthy env (JObj fs) = True"

text \<open>The test of \<^verbatim>\<open>??\<close> and of \<^verbatim>\<open>?.\<close>.\<close>

fun nullish :: "'n jsval \<Rightarrow> bool" where
  "nullish JUndefined = True"
| "nullish JNull = True"
| "nullish v = False"

text \<open>
  Member access \<^verbatim>\<open>v.name\<close>, for the names the program reads (\<^verbatim>\<open>info\<close>,
  \<^verbatim>\<open>prompt\<close>, \<^verbatim>\<open>output_text\<close>, \<^verbatim>\<open>output\<close>, \<^verbatim>\<open>content\<close>,
  \<^verbatim>\<open>text\<close>, \<^verbatim>\<open>error\<close>, \<^verbatim>\<open>message\<close>): none of them is a property of a
  built-in prototype, so the result is the object's own property (\<open>own_prop\<close>), and
  \<^verbatim>\<open>undefined\<close> when there is none or the value is not an object.
  Reading a property of \<^verbatim>\<open>null\<close> or \<^verbatim>\<open>undefined\<close> throws.
\<close>

fun own_prop :: "'n jsval \<Rightarrow> string \<Rightarrow> 'n jsval" where
  "own_prop (JObj fs) name = (case map_of fs name of None \<Rightarrow> JUndefined | Some v \<Rightarrow> v)"
| "own_prop v name = JUndefined"

fun get_prop :: "'n jsval \<Rightarrow> string \<Rightarrow> 'n jsval + 'n jsval" where
  "get_prop JUndefined name =
     Inl (TypeError (''Cannot read properties of undefined (reading ''
                       @ CHR 0x27 # name @ CHR 0x27 # '')''))"
| "get_prop JNull name =
     Inl (TypeError (''Cannot read properties of null (reading ''
                       @ CHR 0x27 # name @ CHR 0x27 # '')''))"
| "get_prop v name = Inr (own_prop v name)"

text \<open>
  \<^verbatim>\<open>ToString\<close>. An array converts through \<^verbatim>\<open>join(',')\<close>, where
  \<^verbatim>\<open>null\<close> and \<^verbatim>\<open>undefined\<close> elements give the empty string. An object converts
  through \<^verbatim>\<open>Object.prototype.toString\<close>, unless it has an own property
  \<^verbatim>\<open>toString\<close>: that one is data, not callable, \<^verbatim>\<open>valueOf\<close> does not return a
  primitive either, and the conversion throws.
\<close>

fun to_string :: "'n env \<Rightarrow> 'n jsval \<Rightarrow> 'n jsval + string" where
  "to_string env JUndefined = Inr ''undefined''"
| "to_string env JNull = Inr ''null''"
| "to_string env (JBool b) = Inr (if b then ''true'' else ''false'')"
| "to_string env (JNum n) = Inr (number_to_string env n)"
| "to_string env (JStr s) = Inr s"
| "to_string env (JArr xs) =
     bindE (sequence (map (\<lambda>x. if nullish x then Inr [] else to_string env x) xs))
       (\<lambda>ss. Inr (join_strings '','' ss))"
| "to_string env (JObj fs) =
     (if ''toString'' \<in> fst ` set fs
      then Inl (TypeError ''Cannot convert object to primitive value'')
      else Inr ''[object Object]'')"

text \<open>\<^verbatim>\<open>Array.prototype.join\<close> on the elements \<open>xs\<close> of an array.\<close>

definition array_join :: "'n env \<Rightarrow> string \<Rightarrow> 'n jsval list \<Rightarrow> 'n jsval + string" where
  "array_join env sep xs =
     bindE (sequence (map (\<lambda>x. if nullish x then Inr [] else to_string env x) xs))
       (\<lambda>ss. Inr (join_strings sep ss))"

text \<open>
  The call \<^verbatim>\<open>recv.map(f)\<close>, \<open>expr\<close> being the text of the callee for the engine's
  message. Only an array has a callable \<^verbatim>\<open>map\<close>: on any other data value the
  property is missing or is data, and the call throws. The result is the list of elements
  of the new array.
\<close>

fun call_map :: "string \<Rightarrow> 'n jsval \<Rightarrow> ('n jsval \<Rightarrow> 'n jsval + 'n jsval)
    \<Rightarrow> 'n jsval + 'n jsval list" where
  "call_map expr (JArr xs) f = sequence (map f xs)"
| "call_map expr JUndefined f =
     Inl (TypeError (''Cannot read properties of undefined (reading ''
            @ CHR 0x27 # ''map'' @ CHR 0x27 # '')''))"
| "call_map expr JNull f =
     Inl (TypeError (''Cannot read properties of null (reading ''
            @ CHR 0x27 # ''map'' @ CHR 0x27 # '')''))"
| "call_map expr v f = Inl (TypeError (expr @ '' is not a function''))"

section \<open>The prompt assembler\<close>

text \<open>Lines 75 to 82: the context file, or the empty array when reading or parsing throws.\<close>

definition load_context :: "'n env \<Rightarrow> 'n jsval" where
  "load_context env =
     (case readFile env ''data/context.json'' of
        Inl e \<Rightarrow> JArr []
      | Inr contextRaw \<Rightarrow>
          (case JSON_parse env contextRaw of
             Inl e \<Rightarrow> JArr []
           | Inr v \<Rightarrow> v))"

text \<open>
  Lines 85 to 92: the guardrail file's \<^verbatim>\<open>prompt || ''\<close>, or the empty string when
  reading, parsing or the member access throws.
\<close>

definition load_guardrail :: "'n env \<Rightarrow> 'n jsval" where
  "load_guardrail env =
     (case readFile env ''data/guardrail.json'' of
        Inl e \<Rightarrow> JStr ''''
      | Inr guardrailRaw \<Rightarrow>
          (case JSON_parse env guardrailRaw of
             Inl e \<Rightarrow> JStr ''''
           | Inr g \<Rightarrow>
               (case get_prop g ''prompt'' of
                  Inl e \<Rightarrow> JStr ''''
                | Inr p \<Rightarrow> if truthy env p then p else JStr '''')))"

text \<open>Line 95, outside both \<^verbatim>\<open>try\<close> blocks.\<close>

definition contextString :: "'n env \<Rightarrow> 'n jsval + string" where
  "contextString env =
     bindE (call_map ''contextArr.map'' (load_context env) (\<lambda>c. get_prop c ''info''))
       (\<lambda>infos. array_join env ''\<newline>'' infos)"

text \<open>Line 96: \<^verbatim>\<open>[guardrailPrompt, contextString, prompt].filter(Boolean).join('\n---\n')\<close>.\<close>

definition fullPrompt :: "'n env \<Rightarrow> string \<Rightarrow> 'n jsval + string" where
  "fullPrompt env prompt =
     bindE (contextString env)
       (\<lambda>cs. array_join env ''\<newline>---\<newline>''
              (filter (truthy env) [load_guardrail env, JStr cs, JStr prompt]))"

section \<open>The completion invoker\<close>

text \<open>Lines 32 to 48.\<close>

definition MODEL_PRESETS :: "(string \<times> preset) list" where
  "MODEL_PRESETS =
     [(''gpt-5'',
         \<lparr>model = ''gpt-5'', temperature = 7 / 10, max_output_tokens = 1024\<rparr>),
      (''gpt-5-mini'',
         \<lparr>model = ''gpt-5-mini'', temperature = 5 / 10, max_output_tokens = 768\<rparr>),
      (''gpt-5-chat-latest'',
         \<lparr>model = ''gpt-5-chat-latest'', temperature = 7 / 10, max_output_tokens = 1024\<rparr>)]"

text \<open>
  Line 109, the text of a response \<open>r\<close>:
  \<^verbatim>\<open>r.output_text ?? (r.output?.map(o => o.content?.map(c => c.text).join('')).join('\n') || '')\<close>.
  An optional chain that meets \<^verbatim>\<open>null\<close> or \<^verbatim>\<open>undefined\<close> gives
  \<^verbatim>\<open>undefined\<close> for the whole chain, the \<^verbatim>\<open>join\<close> included.
\<close>

definition item_text :: "'n env \<Rightarrow> 'n jsval \<Rightarrow> 'n jsval + 'n jsval" where
  "item_text env o' =
     bindE (get_prop o' ''content'')
       (\<lambda>c. if nullish c then Inr JUndefined
            else bindE (call_map ''o.content?.map'' c (\<lambda>c. get_prop c ''text''))
                   (\<lambda>texts. bindE (array_join env '''' texts) (\<lambda>s. Inr (JStr s))))"

definition response_text :: "'n env \<Rightarrow> 'n jsval \<Rightarrow> 'n jsval + 'n jsval" where
  "response_text env r =
     bindE (get_prop r ''output_text'')
       (\<lambda>output_text.
          if \<not> nullish output_text then Inr output_text
          else bindE (get_prop r ''output'')
                 (\<lambda>output.
                    bindE (if nullish output then Inr JUndefined
                           else bindE (call_map ''r.output?.map'' output (item_text env))
                                  (\<lambda>items. bindE (array_join env ''\<newline>'' items)
                                     (\<lambda>s. Inr (JStr s))))
                      (\<lambda>joined. Inr (if truthy env joined then joined else JStr ''''))))"

text \<open>
  Line 111, the \<^verbatim>\<open>catch\<close> clause for a thrown value \<open>e\<close>:
  \<^verbatim>\<open>'[OpenAI error: ' + (e?.error?.message || e.message || 'Unknown error') + ']'\<close>.
  The clause itself throws when \<open>e\<close> is \<^verbatim>\<open>null\<close> or \<^verbatim>\<open>undefined\<close>, or when
  the chosen message does not convert to a string.
\<close>

definition error_message :: "'n env \<Rightarrow> 'n jsval \<Rightarrow> 'n jsval + 'n jsval" where
  "error_message env e =
     bindE (if nullish e then Inr JUndefined
            else bindE (get_prop e ''error'')
                   (\<lambda>err. if nullish err then Inr JUndefined else get_prop err ''message''))
       (\<lambda>m1. if truthy env m1 then Inr m1
             else bindE (get_prop e ''message'')
                    (\<lambda>m2. Inr (if truthy env m2 then m2 else JStr ''Unknown error'')))"

definition catch_clause :: "'n env \<Rightarrow> 'n jsval \<Rightarrow> 'n jsval + 'n jsval" where
  "catch_clause env e =
     bindE (error_message env e)
       (\<lambda>m. bindE (to_string env m)
          (\<lambda>s. Inr (JStr (''[OpenAI error: '' @ s @ '']''))))"

text \<open>
  Lines 73 to 113. The result is the list of requests sent to the completion service
  (none or one) and what the function returns (\<open>Inr\<close>) or throws (\<open>Inl\<close>).
  \<^verbatim>\<open>MODEL_PRESETS[model]\<close> is \<^verbatim>\<open>undefined\<close> for a missing key, and then
  \<^verbatim>\<open>preset.model\<close> throws inside the \<^verbatim>\<open>try\<close>.
\<close>

definition getChatResponse ::
    "'n env \<Rightarrow> string \<Rightarrow> string \<Rightarrow> create_params list \<times> ('n jsval + 'n jsval)" where
  "getChatResponse env role' prompt =
     (case fullPrompt env prompt of
        Inl e \<Rightarrow> ([], Inl e)
      | Inr full \<Rightarrow>
          (let model' = ''gpt-5'';
               preset = map_of MODEL_PRESETS model';
               input' = [\<lparr>role = role',
                          content = [\<lparr>part_type = ''text'', part_text = full\<rparr>]\<rparr>]
           in case preset of
                None \<Rightarrow>
                  ([], catch_clause env
                         (TypeError (''Cannot read properties of undefined (reading ''
                            @ CHR 0x27 # ''model'' @ CHR 0x27 # '')'')))
              | Some preset \<Rightarrow>
                  (let params = \<lparr>model = model preset,
                                 temperature = temperature preset,
                                 max_output_tokens = max_output_tokens preset,
                                 input = input'\<rparr>
                   in ([params],
                       (case responses_create env params of
                          Inl e \<Rightarrow> catch_clause env e
                        | Inr r \<Rightarrow>
                            (case response_text env r of
                               Inl e \<Rightarrow> catch_clause env e
                             | Inr t \<Rightarrow> Inr t))))))"

section \<open>The HTTP handler\<close>

text \<open>
  Modelled from the spec: \<^verbatim>\<open>bodySchema.validate\<close> is the Joi library's, which is not
  under src/. The schema (lines 67 to 70) makes \<^verbatim>\<open>role\<close> and \<^verbatim>\<open>prompt\<close> required
  non-empty strings; with \<^verbatim>\<open>abortEarly: false\<close> every violated constraint is
  reported, and the message is the reports joined; with \<^verbatim>\<open>stripUnknown: true\<close>
  the validated value keeps the two fields only. The wording of each report is Joi's.
  The body is the JSON object of the request, as the list of its properties.
\<close>

fun field_violation :: "string \<Rightarrow> 'n jsval \<Rightarrow> string option" where
  "field_violation name JUndefined = Some (CHR 0x22 # name @ CHR 0x22 # '' is required'')"
| "field_violation name (JStr s) =
     (if s = [] then Some (CHR 0x22 # name @ CHR 0x22 # '' is not allowed to be empty'')
      else None)"
| "field_violation name v = Some (CHR 0x22 # name @ CHR 0x22 # '' must be a string'')"

definition violations :: "(string \<times> 'n jsval) list \<Rightarrow> string list" where
  "violations body =
     List.map_filter (\<lambda>name. field_violation name (own_prop (JObj body) name))
       [''role'', ''prompt'']"

definition bodySchema_validate :: "(string \<times> 'n jsval) list \<Rightarrow> string + string \<times> string" where
  "bodySchema_validate body =
     (case (own_prop (JObj body) ''role'', own_prop (JObj body) ''prompt'') of
        (JStr r, JStr p) \<Rightarrow>
          if r \<noteq> [] \<and> p \<noteq> [] then Inr (r, p)
          else Inl (join_strings ''. '' (violations body))
      | _ \<Rightarrow> Inl (join_strings ''. '' (violations body)))"

text \<open>
  What the handler of \<^verbatim>\<open>POST /v1/chat\<close> does with a request: it sends a response
  with a status and a JSON body, or its promise rejects with the thrown value and the
  handler sends nothing.
\<close>

datatype 'n outcome = Response nat "'n jsval" | Rejected "'n jsval"

text \<open>Lines 126 to 136: the requests sent to the completion service, and the outcome.\<close>

definition chat_handler ::
    "'n env \<Rightarrow> (string \<times> 'n jsval) list \<Rightarrow> create_params list \<times> 'n outcome" where
  "chat_handler env body =
     (case bodySchema_validate body of
        Inl message \<Rightarrow>
          ([], Response 400
                 (JObj [(''ok'', JBool False),
                        (''error'', JObj [(''type'', JStr ''BadRequest''),
                                          (''message'', JStr message)])]))
      | Inr (role', prompt) \<Rightarrow>
          (case getChatResponse env role' prompt of
             (calls, Inl e) \<Rightarrow> (calls, Rejected e)
           | (calls, Inr output_text) \<Rightarrow>
               (calls, Response 200
                         (JObj [(''ok'', JBool True),
                                (''model'', JStr ''gpt-5''),
                                (''output_text'', output_text),
                                (''usage'', JNull),
                                (''raw'', JNull)]))))"

section \<open>Example environments\<close>

text \<open>
  Concrete environments for the examples below. Their files hold no number, so the number
  type is \<open>unit\<close>. \<open>example_parse\<close> is \<^verbatim>\<open>JSON.parse\<close> on the few texts the
  examples use.
\<close>

definition SyntaxError :: "unit jsval" where
  "SyntaxError = JObj [(''message'', JStr ''Unexpected end of JSON input'')]"

definition ENOENT :: "unit jsval" where
  "ENOENT = JObj [(''code'', JStr ''ENOENT''),
                  (''message'', JStr ''ENOENT: no such file or directory'')]"

definition context_AB :: string where
  \<open>context_AB = ''[{"info":"A"},{"info":"B"}]''\<close>

definition guardrail_G :: string where
  \<open>guardrail_G = ''{"prompt":"G"}''\<close>

definition guardrail_null :: string where
  \<open>guardrail_null = ''{"prompt":null}''\<close>

definition example_parse :: "string \<Rightarrow> unit jsval + unit jsval" where
  "example_parse raw =
     (if raw = context_AB
      then Inr (JArr [JObj [(''info'', JStr ''A'')], JObj [(''info'', JStr ''B'')]])
      else if raw = guardrail_G then Inr (JObj [(''prompt'', JStr ''G'')])
      else if raw = guardrail_null then Inr (JObj [(''prompt'', JNull)])
      else if raw = ''{}'' then Inr (JObj [])
      else if raw = ''[]'' then Inr (JArr [])
      else Inl SyntaxError)"

text \<open>
  An environment from the texts of the two files (\<open>None\<close>: the file is missing) and the
  behaviour of the completion service.
\<close>

definition example_env ::
    "string option \<Rightarrow> string option \<Rightarrow> (create_params \<Rightarrow> unit jsval + unit jsval)
      \<Rightarrow> unit env" where
  "example_env context_file guardrail_file service =
     \<lparr>readFile = (\<lambda>path.
         if path = ''data/context.json''
         then (case context_file of None \<Rightarrow> Inl ENOENT | Some raw \<Rightarrow> Inr raw)
         else if path = ''data/guardrail.json''
         then (case guardrail_file of None \<Rightarrow> Inl ENOENT | Some raw \<Rightarrow> Inr raw)
         else Inl ENOENT),
      JSON_parse = example_parse,
      responses_create = service,
      number_to_boolean = (\<lambda>n. False),
      number_to_string = (\<lambda>n. ''0'')\<rparr>"

definition service_hello :: "create_params \<Rightarrow> unit jsval + unit jsval" where
  "service_hello params = Inr (JObj [(''output_text'', JStr ''Hello'')])"

definition env_AB_G :: "unit env" where
  "env_AB_G = example_env (Some context_AB) (Some guardrail_G) service_hello"

definition env_no_files :: "unit env" where
  "env_no_files = example_env None None service_hello"

definition env_guardrail_null :: "unit env" where
  "env_guardrail_null = example_env (Some context_AB) (Some guardrail_null) service_hello"

definition env_context_object :: "unit env" where
  "env_context_object = example_env (Some ''{}'') (Some guardrail_G) service_hello"

definition error_empty_message :: "unit jsval" where
  "error_empty_message =
     JObj [(''status'', JStr ''400''),
           (''error'', JObj [(''message'', JStr ''''), (''type'', JStr ''invalid_request_error'')]),
           (''message'', JStr ''400 status code (no body)'')]"

definition service_fails_empty :: "create_params \<Rightarrow> unit jsval + unit jsval" where
  "service_fails_empty params = Inl error_empty_message"

definition env_fails_empty :: "unit env" where
  "env_fails_empty = example_env (Some context_AB) (Some guardrail_G) service_fails_empty"

definition error_quota :: "unit jsval" where
  "error_quota =
     JObj [(''error'', JObj [(''message'', JStr ''You exceeded your current quota'')]),
           (''message'', JStr ''429 You exceeded your current quota'')]"

definition service_fails_quota :: "create_params \<Rightarrow> unit jsval + unit jsval" where
  "service_fails_quota params = Inl error_quota"

definition env_fails_quota :: "unit env" where
  "env_fails_quota = example_env (Some context_AB) (Some guardrail_G) service_fails_quota"

definition body_user_P :: "(string \<times> unit jsval) list" where
  "body_user_P = [(''role'', JStr ''user''), (''prompt'', JStr ''P'')]"

definition body_system_P :: "(string \<times> unit jsval) list" where
  "body_system_P = [(''role'', JStr ''system''), (''prompt'', JStr ''P''), (''model'', JStr ''gpt-5-mini'')]"

definition both_required :: string where
  \<open>both_required = ''"role" is required. "prompt" is required''\<close>

definition body_empty :: "(string \<times> unit jsval) list" where
  "body_empty = [(''model'', JStr ''gpt-5-mini'')]"

text \<open>
  A response without \<^verbatim>\<open>output_text\<close>: a reasoning item with no content, then a
  message whose content holds two text fragments around a refusal.
\<close>

definition output_items :: "unit jsval list" where
  "output_items =
     [JObj [(''type'', JStr ''reasoning''), (''summary'', JArr [])],
      JObj [(''type'', JStr ''message''),
            (''content'',
               JArr [JObj [(''type'', JStr ''output_text''), (''text'', JStr ''Hel'')],
                     JObj [(''type'', JStr ''refusal''), (''refusal'', JStr ''no'')],
                     JObj [(''type'', JStr ''output_text''), (''text'', JStr ''lo'')]])]]"

definition response_fallback :: "unit jsval" where
  "response_fallback = JObj [(''id'', JStr ''resp_1''), (''output'', JArr output_items)]"

definition service_fallback :: "create_params \<Rightarrow> unit jsval + unit jsval" where
  "service_fallback params = Inr response_fallback"

definition env_fallback :: "unit env" where
  "env_fallback = example_env (Some context_AB) (Some guardrail_G) service_fallback"

definition guardrail_truncated :: string where
  \<open>guardrail_truncated = ''{"prompt":''\<close>

definition env_truncated :: "unit env" where
  "env_truncated = example_env None (Some guardrail_truncated) service_hello"

text \<open>A service whose response has neither \<^verbatim>\<open>output_text\<close> nor \<^verbatim>\<open>output\<close>.\<close>

definition service_bare :: "create_params \<Rightarrow> unit jsval + unit jsval" where
  "service_bare params = Inr (JObj [(''id'', JStr ''resp_2'')])"

definition env_bare :: "unit env" where
  "env_bare = example_env (Some context_AB) (Some guardrail_G) service_bare"

section \<open>Properties\<close>

subsection \<open>Auxiliary facts about the language operations\<close>

lemma sequence_list_all2:
  "list_all2 (\<lambda>x y. f x = Inr y) xs ys \<Longrightarrow> sequence (map f xs) = Inr ys"
  by (induction xs ys rule: list_all2_induct) simp_all

lemma sequence_map_Inr: "sequence (map Inr xs) = Inr xs"
  by (induction xs) simp_all

lemma list_all2_compose:
  assumes "list_all2 (\<lambda>x z. \<exists>y. P x y \<and> Q y z) xs zs"
  shows "\<exists>ys. list_all2 P xs ys \<and> list_all2 Q ys zs"
  using assms
proof (induction xs zs rule: list_all2_induct)
  case Nil
  then show ?case by simp
next
  case (Cons x xs z zs)
  then obtain y ys where "P x y" "Q y z" "list_all2 P xs ys" "list_all2 Q ys zs"
    by blast
  then have "list_all2 P (x # xs) (y # ys) \<and> list_all2 Q (y # ys) (z # zs)"
    by simp
  then show ?case by blast
qed

lemma join_strings_empty_sep: "join_strings [] ss = concat ss"
  by (induction "[] :: string" ss rule: join_strings.induct) simp_all

lemma array_join_elements:
  assumes "list_all2 (\<lambda>v s. (if nullish v then Inr [] else to_string env v) = Inr s) vs ss"
  shows "array_join env sep vs = Inr (join_strings sep ss)"
  using sequence_list_all2 [OF assms] by (simp add: array_join_def)

lemma array_join_strings: "array_join env sep (map JStr ss) = Inr (join_strings sep ss)"
proof -
  have "map (\<lambda>x. if nullish x then Inr [] else to_string env x) (map JStr ss) = map Inr ss"
    by simp
  then show ?thesis
    by (simp add: array_join_def sequence_map_Inr del: map_map)
qed

lemma call_map_elements:
  assumes "list_all2 (\<lambda>x y. f x = Inr y) xs ys"
  shows "call_map expr (JArr xs) f = Inr ys"
  using sequence_list_all2 [OF assms] by simp

lemma filter_truthy_strings:
  "filter (truthy env) (map JStr ss) = map JStr (filter (\<lambda>s. s \<noteq> []) ss)"
  by (induction ss) simp_all

text \<open>Truthiness and string conversion read the environment's number operations only.\<close>

lemma truthy_env:
  assumes "number_to_boolean env' = number_to_boolean env"
  shows "truthy env' = truthy env"
proof
  fix x show "truthy env' x = truthy env x"
    using assms by (cases x) simp_all
qed

lemma to_string_env:
  assumes "number_to_string env' = number_to_string env"
  shows "to_string env' x = to_string env x"
proof (induction x)
  case (JArr xs)
  have h: "map (\<lambda>x. if nullish x then Inr [] else to_string env' x) xs
         = map (\<lambda>x. if nullish x then Inr [] else to_string env x) xs"
    using JArr by (intro map_cong refl) simp
  show ?case
    unfolding to_string.simps h by (rule refl)
qed (simp_all add: assms)

subsection \<open>Auxiliary facts about the program\<close>

lemma fullPrompt_of_strings:
  assumes "contextString env = Inr cs" and "load_guardrail env = JStr g"
  shows "fullPrompt env p =
           Inr (join_strings ''\<newline>---\<newline>'' (filter (\<lambda>s. s \<noteq> []) [g, cs, p]))"
proof -
  have "filter (truthy env) [JStr g, JStr cs, JStr p]
          = map JStr (filter (\<lambda>s. s \<noteq> []) [g, cs, p])"
    using filter_truthy_strings [of env "[g, cs, p]"] by simp
  then show ?thesis
    using assms by (simp add: fullPrompt_def array_join_strings del: filter.simps)
qed

lemma contextString_of_entries:
  assumes "load_context env = JArr entries"
      and "list_all2 (\<lambda>c s. get_prop c ''info'' = Inr (JStr s)) entries infos"
  shows "contextString env = Inr (join_strings ''\<newline>'' infos)"
proof -
  have "list_all2 (\<lambda>c v. get_prop c ''info'' = Inr v) entries (map JStr infos)"
    using assms(2) by (simp add: list_all2_map2)
  then have "sequence (map (\<lambda>c. get_prop c ''info'') entries) = Inr (map JStr infos)"
    by (rule sequence_list_all2)
  then show ?thesis
    using assms(1) by (simp add: contextString_def array_join_strings)
qed

lemma preset_gpt5:
  "map_of MODEL_PRESETS ''gpt-5''
     = Some \<lparr>model = ''gpt-5'', temperature = 7 / 10, max_output_tokens = 1024\<rparr>"
  by (simp add: MODEL_PRESETS_def)

lemma getChatResponse_calls:
  "fst (getChatResponse env r p) =
     (case fullPrompt env p of
        Inl e \<Rightarrow> []
      | Inr full \<Rightarrow>
          [\<lparr>model = ''gpt-5'', temperature = 7 / 10, max_output_tokens = 1024,
            input = [\<lparr>role = r,
                      content = [\<lparr>part_type = ''text'', part_text = full\<rparr>]\<rparr>]\<rparr>])"
  by (simp add: getChatResponse_def preset_gpt5 Let_def split: sum.splits)

lemma getChatResponse_sends:
  assumes "fullPrompt env p = Inr full"
  shows "fst (getChatResponse env r p) =
           [\<lparr>model = ''gpt-5'', temperature = 7 / 10, max_output_tokens = 1024,
             input = [\<lparr>role = r,
                       content = [\<lparr>part_type = ''text'', part_text = full\<rparr>]\<rparr>]\<rparr>]"
  using assms by (simp add: getChatResponse_calls)

lemma getChatResponse_returns:
  assumes "fullPrompt env p = Inr full"
  shows "snd (getChatResponse env r p) =
           (case responses_create env
                   \<lparr>model = ''gpt-5'', temperature = 7 / 10, max_output_tokens = 1024,
                    input = [\<lparr>role = r,
                              content = [\<lparr>part_type = ''text'', part_text = full\<rparr>]\<rparr>]\<rparr> of
              Inl e \<Rightarrow> catch_clause env e
            | Inr resp \<Rightarrow>
                (case response_text env resp of
                   Inl e \<Rightarrow> catch_clause env e
                 | Inr t \<Rightarrow> Inr t))"
  using assms by (simp add: getChatResponse_def preset_gpt5 Let_def)

lemma chat_handler_calls:
  "fst (chat_handler env body) =
     (case bodySchema_validate body of
        Inl m \<Rightarrow> []
      | Inr (r, p) \<Rightarrow> fst (getChatResponse env r p))"
  by (simp add: chat_handler_def split: sum.splits prod.splits)

lemma chat_handler_valid:
  assumes "bodySchema_validate body = Inr (r, p)"
  shows "fst (chat_handler env body) = fst (getChatResponse env r p)"
    and "snd (chat_handler env body) =
           (case snd (getChatResponse env r p) of
              Inl e \<Rightarrow> Rejected e
            | Inr output_text \<Rightarrow>
                Response 200
                  (JObj [(''ok'', JBool True), (''model'', JStr ''gpt-5''),
                         (''output_text'', output_text), (''usage'', JNull), (''raw'', JNull)]))"
  using assms by (simp_all add: chat_handler_def split: prod.splits sum.splits)

lemma error_message_object:
  assumes "\<not> nullish e"
  shows "error_message env e =
           Inr (if truthy env (own_prop (own_prop e ''error'') ''message'')
                then own_prop (own_prop e ''error'') ''message''
                else if truthy env (own_prop e ''message'') then own_prop e ''message''
                else JStr ''Unknown error'')"
proof -
  have e: "get_prop e name = Inr (own_prop e name)" for name
    using assms by (cases e) simp_all
  show ?thesis
  proof (cases "nullish (own_prop e ''error'')")
    case True
    then have "own_prop (own_prop e ''error'') ''message'' = JUndefined"
      by (cases "own_prop e ''error''") simp_all
    with True show ?thesis
      using assms by (simp add: error_message_def e)
  next
    case False
    then have "get_prop (own_prop e ''error'') ''message''
                 = Inr (own_prop (own_prop e ''error'') ''message'')"
      by (cases "own_prop e ''error''") simp_all
    with False show ?thesis
      using assms by (simp add: error_message_def e)
  qed
qed

lemma item_text_of_fragments:
  assumes "get_prop item ''content'' = Inr c"
      and "if nullish c then texts = []
           else \<exists>frags. c = JArr frags
                  \<and> list_all2 (\<lambda>frag s. \<exists>v. get_prop frag ''text'' = Inr v
                                    \<and> (if nullish v then s = [] else v = JStr s)) frags texts"
  shows "\<exists>v. item_text env item = Inr v
           \<and> (if nullish v then Inr [] else to_string env v) = Inr (concat texts)"
proof (cases "nullish c")
  case True
  then show ?thesis
    using assms by (simp add: item_text_def)
next
  case False
  then obtain frags where c: "c = JArr frags"
    and fr: "list_all2 (\<lambda>frag s. \<exists>v. get_prop frag ''text'' = Inr v
                          \<and> (if nullish v then s = [] else v = JStr s)) frags texts"
    using assms(2) by auto
  from list_all2_compose [OF fr] obtain vs
    where g: "list_all2 (\<lambda>frag v. get_prop frag ''text'' = Inr v) frags vs"
      and t: "list_all2 (\<lambda>v s. if nullish v then s = [] else v = JStr s) vs texts"
    by blast
  have "list_all2 (\<lambda>v s. (if nullish v then Inr [] else to_string env v) = Inr s) vs texts"
    using t by (rule list_all2_mono) (auto split: if_splits)
  then have j: "array_join env '''' vs = Inr (concat texts)"
    using array_join_elements [of env vs texts "''''"] by (simp add: join_strings_empty_sep)
  have "item_text env item = Inr (JStr (concat texts))"
    using assms(1) False c call_map_elements [OF g] j by (simp add: item_text_def)
  then show ?thesis by simp
qed

lemma validate_invalid:
  assumes "\<not> (\<exists>r p. own_prop (JObj body) ''role'' = JStr r \<and> r \<noteq> []
                  \<and> own_prop (JObj body) ''prompt'' = JStr p \<and> p \<noteq> [])"
  shows "bodySchema_validate body = Inl (join_strings ''. '' (violations body))"
  using assms by (auto simp add: bodySchema_validate_def split: jsval.splits)

lemma field_violation_None_iff:
  "field_violation name v = None \<longleftrightarrow> (\<exists>s. v = JStr s \<and> s \<noteq> [])"
  by (cases v) simp_all

subsection \<open>Auxiliary facts about the examples\<close>

lemma example_readFile:
  "readFile (example_env c g s) ''data/context.json''
     = (case c of None \<Rightarrow> Inl ENOENT | Some raw \<Rightarrow> Inr raw)"
  "readFile (example_env c g s) ''data/guardrail.json''
     = (case g of None \<Rightarrow> Inl ENOENT | Some raw \<Rightarrow> Inr raw)"
  "JSON_parse (example_env c g s) = example_parse"
  "responses_create (example_env c g s) = s"
  by (simp_all add: example_env_def)

lemma example_parse_simps:
  "example_parse context_AB
     = Inr (JArr [JObj [(''info'', JStr ''A'')], JObj [(''info'', JStr ''B'')]])"
  "example_parse guardrail_G = Inr (JObj [(''prompt'', JStr ''G'')])"
  "example_parse guardrail_null = Inr (JObj [(''prompt'', JNull)])"
  "example_parse ''{}'' = Inr (JObj [])"
  by (simp_all add: example_parse_def context_AB_def guardrail_G_def guardrail_null_def)

lemma fullPrompt_AB_G:
  "fullPrompt (example_env (Some context_AB) (Some guardrail_G) s) ''P''
     = Inr ''G\<newline>---\<newline>A\<newline>B\<newline>---\<newline>P''"
  by (simp add: fullPrompt_def contextString_def load_context_def load_guardrail_def
      example_readFile example_parse_simps array_join_def)

lemma validate_examples:
  "bodySchema_validate body_user_P = Inr (''user'', ''P'')"
  "bodySchema_validate body_system_P = Inr (''system'', ''P'')"
  by (simp_all add: bodySchema_validate_def body_user_P_def body_system_P_def)

section \<open>The claims\<close>

subsection \<open>The composite input\<close>

text \<open>
  C1. When the context file holds entries whose \<^verbatim>\<open>info\<close> fields are the strings
  \<open>infos\<close> and the guardrail directive is the string \<open>g\<close>, the composite input for a
  prompt \<open>p\<close> is the non-empty members of: \<open>g\<close>, the \<open>infos\<close> joined with a newline,
  and \<open>p\<close>, in this order, joined with a newline, three dashes and a newline; and this
  is the text of the one message sent to the completion service.
\<close>

theorem C1_composite_input:
  assumes "load_context env = JArr entries"
      and "list_all2 (\<lambda>c s. get_prop c ''info'' = Inr (JStr s)) entries infos"
      and "load_guardrail env = JStr g"
  shows "fullPrompt env p =
           Inr (join_strings ''\<newline>---\<newline>''
                  (filter (\<lambda>s. s \<noteq> []) [g, join_strings ''\<newline>'' infos, p]))
       \<and> map (\<lambda>params. map (\<lambda>m. map part_text (content m)) (input params))
             (fst (getChatResponse env r p))
           = [[[join_strings ''\<newline>---\<newline>''
                  (filter (\<lambda>s. s \<noteq> []) [g, join_strings ''\<newline>'' infos, p])]]]"
proof -
  have cs: "contextString env = Inr (join_strings ''\<newline>'' infos)"
    using assms(1,2) by (rule contextString_of_entries)
  have full: "fullPrompt env p =
                Inr (join_strings ''\<newline>---\<newline>''
                       (filter (\<lambda>s. s \<noteq> []) [g, join_strings ''\<newline>'' infos, p]))"
    using cs assms(3) by (rule fullPrompt_of_strings)
  show ?thesis
    using full getChatResponse_sends [OF full, of r] by simp
qed

text \<open>
  The example of the specification: context entries A and B, guardrail G, prompt P.
\<close>

theorem C1_composite_input_witness:
  "load_context env_AB_G = JArr [JObj [(''info'', JStr ''A'')], JObj [(''info'', JStr ''B'')]]
   \<and> load_guardrail env_AB_G = JStr ''G''
   \<and> fullPrompt env_AB_G ''P'' = Inr ''G\<newline>---\<newline>A\<newline>B\<newline>---\<newline>P''"
proof -
  have c: "load_context env_AB_G
             = JArr [JObj [(''info'', JStr ''A'')], JObj [(''info'', JStr ''B'')]]"
    by (simp add: load_context_def env_AB_G_def example_readFile example_parse_simps)
  have i: "list_all2 (\<lambda>c s. get_prop c ''info'' = Inr (JStr s))
             [JObj [(''info'', JStr ''A'')], JObj [(''info'', JStr ''B'')]] [''A'', ''B'']"
    by simp
  have g: "load_guardrail env_AB_G = JStr ''G''"
    by (simp add: load_guardrail_def env_AB_G_def example_readFile example_parse_simps)
  show ?thesis
    using c g C1_composite_input [OF c i g, of "''P''" "''user''"] by simp
qed

subsection \<open>The completion call fails\<close>

text \<open>
  C2, as amended. For a request that passes validation and whose completion call fails
  with a thrown value \<open>e\<close> that is not \<^verbatim>\<open>null\<close> or \<^verbatim>\<open>undefined\<close>:
  let \<open>m\<close> be \<^verbatim>\<open>e.error.message\<close> when that is truthy (present and, for a string,
  not empty), else \<^verbatim>\<open>e.message\<close> when that is truthy, else the text
  \<^verbatim>\<open>Unknown error\<close>. When \<open>m\<close> converts to the string \<open>s\<close> (a string converts to
  itself), \<^verbatim>\<open>getChatResponse\<close> returns the bracketed placeholder around \<open>s\<close> instead
  of throwing, and the handler responds with status 200, \<^verbatim>\<open>ok: true\<close> and the
  placeholder as \<^verbatim>\<open>output_text\<close>.
\<close>

theorem C2_error_placeholder:
  assumes "bodySchema_validate body = Inr (r, p)"
      and "fullPrompt env p = Inr full"
      and "responses_create env
             \<lparr>model = ''gpt-5'', temperature = 7 / 10, max_output_tokens = 1024,
              input = [\<lparr>role = r,
                        content = [\<lparr>part_type = ''text'', part_text = full\<rparr>]\<rparr>]\<rparr> = Inl e"
      and "\<not> nullish e"
      and "m = (if truthy env (own_prop (own_prop e ''error'') ''message'')
                then own_prop (own_prop e ''error'') ''message''
                else if truthy env (own_prop e ''message'') then own_prop e ''message''
                else JStr ''Unknown error'')"
      and "to_string env m = Inr s"
  shows "snd (getChatResponse env r p) = Inr (JStr (''[OpenAI error: '' @ s @ '']''))
       \<and> snd (chat_handler env body) =
           Response 200
             (JObj [(''ok'', JBool True), (''model'', JStr ''gpt-5''),
                    (''output_text'', JStr (''[OpenAI error: '' @ s @ '']'')),
                    (''usage'', JNull), (''raw'', JNull)])"
proof -
  have "error_message env e = Inr m"
    using error_message_object [OF assms(4), of env] assms(5) by simp
  then have c: "catch_clause env e = Inr (JStr (''[OpenAI error: '' @ s @ '']''))"
    using assms(6) by (simp add: catch_clause_def)
  have g: "snd (getChatResponse env r p) = Inr (JStr (''[OpenAI error: '' @ s @ '']''))"
    using getChatResponse_returns [OF assms(2), of r] assms(3) c by simp
  show ?thesis
    using g chat_handler_valid(2) [OF assms(1), of env] by simp
qed

text \<open>
  An API error whose body carries a message: the placeholder holds that message.
\<close>

theorem C2_error_placeholder_witness:
  "snd (getChatResponse env_fails_quota ''user'' ''P'')
     = Inr (JStr ''[OpenAI error: You exceeded your current quota]'')
   \<and> snd (chat_handler env_fails_quota body_user_P) =
       Response 200
         (JObj [(''ok'', JBool True), (''model'', JStr ''gpt-5''),
                (''output_text'', JStr ''[OpenAI error: You exceeded your current quota]''),
                (''usage'', JNull), (''raw'', JNull)])"
proof -
  have f: "fullPrompt env_fails_quota ''P'' = Inr ''G\<newline>---\<newline>A\<newline>B\<newline>---\<newline>P''"
    by (simp add: env_fails_quota_def fullPrompt_AB_G)
  have c: "responses_create env_fails_quota
             \<lparr>model = ''gpt-5'', temperature = 7 / 10, max_output_tokens = 1024,
              input = [\<lparr>role = ''user'',
                        content = [\<lparr>part_type = ''text'',
                                    part_text = ''G\<newline>---\<newline>A\<newline>B\<newline>---\<newline>P''\<rparr>]\<rparr>]\<rparr>
           = Inl error_quota"
    by (simp add: env_fails_quota_def example_readFile service_fails_quota_def)
  have n: "\<not> nullish error_quota"
    by (simp add: error_quota_def)
  have m: "JStr ''You exceeded your current quota''
         = (if truthy env_fails_quota (own_prop (own_prop error_quota ''error'') ''message'')
            then own_prop (own_prop error_quota ''error'') ''message''
            else if truthy env_fails_quota (own_prop error_quota ''message'')
                 then own_prop error_quota ''message''
                 else JStr ''Unknown error'')"
    by (simp add: error_quota_def)
  have s: "to_string env_fails_quota (JStr ''You exceeded your current quota'')
         = Inr ''You exceeded your current quota''"
    by simp
  show ?thesis
    using C2_error_placeholder [OF validate_examples(1) f c n m s] by simp
qed

text \<open>
  The claim as stated fails where \<^verbatim>\<open>e.error.message\<close> is present and empty: the
  field is the empty string, not \<^verbatim>\<open>null\<close> or \<^verbatim>\<open>undefined\<close>, yet the placeholder
  holds \<^verbatim>\<open>e.message\<close> and not the empty text.
\<close>

theorem C2_present_but_empty_counterexample:
  "own_prop (own_prop error_empty_message ''error'') ''message'' = JStr ''''
   \<and> \<not> nullish (own_prop (own_prop error_empty_message ''error'') ''message'')
   \<and> responses_create env_fails_empty
         \<lparr>model = ''gpt-5'', temperature = 7 / 10, max_output_tokens = 1024,
          input = [\<lparr>role = ''user'',
                    content = [\<lparr>part_type = ''text'',
                                part_text = ''G\<newline>---\<newline>A\<newline>B\<newline>---\<newline>P''\<rparr>]\<rparr>]\<rparr>
       = Inl error_empty_message
   \<and> snd (getChatResponse env_fails_empty ''user'' ''P'')
       = Inr (JStr ''[OpenAI error: 400 status code (no body)]'')
   \<and> snd (getChatResponse env_fails_empty ''user'' ''P'')
       \<noteq> Inr (JStr (''[OpenAI error: '' @ '''' @ '']''))"
proof -
  have f: "fullPrompt env_fails_empty ''P'' = Inr ''G\<newline>---\<newline>A\<newline>B\<newline>---\<newline>P''"
    by (simp add: env_fails_empty_def fullPrompt_AB_G)
  have "snd (getChatResponse env_fails_empty ''user'' ''P'')
       = Inr (JStr ''[OpenAI error: 400 status code (no body)]'')"
    using getChatResponse_returns [OF f, of "''user''"]
    by (simp add: env_fails_empty_def example_readFile service_fails_empty_def
        catch_clause_def error_message_def error_empty_message_def)
  then show ?thesis
    by (simp add: error_empty_message_def env_fails_empty_def example_readFile
        service_fails_empty_def)
qed

subsection \<open>The text of a response\<close>

lemma response_text_cases:
  assumes "get_prop (r :: 'n jsval) ''output_text'' = Inr t"
  shows "(\<not> nullish t \<longrightarrow> response_text env r = Inr t)
       \<and> (nullish t \<and> get_prop r ''output'' = Inr (JArr items)
            \<and> list_all2
                 (\<lambda>item texts. \<exists>c. get_prop item ''content'' = Inr c
                    \<and> (if nullish c then texts = []
                        else \<exists>frags. c = JArr frags
                               \<and> list_all2 (\<lambda>frag s. \<exists>v. get_prop frag ''text'' = Inr v
                                      \<and> (if nullish v then s = [] else v = JStr s)) frags texts))
                 items textss
          \<longrightarrow> response_text env r = Inr (JStr (join_strings ''\<newline>'' (map concat textss))))
       \<and> (nullish t \<and> (\<exists>out. get_prop r ''output'' = Inr out \<and> nullish out)
          \<longrightarrow> response_text env r = Inr (JStr ''''))"
proof (intro conjI impI)
  assume "\<not> nullish t"
  then show "response_text env r = Inr t"
    using assms by (simp add: response_text_def)
next
  assume "nullish t \<and> (\<exists>out. get_prop r ''output'' = Inr out \<and> nullish out)"
  then show "response_text env r = Inr (JStr '''')"
    using assms by (auto simp add: response_text_def)
next
  assume a: "nullish t \<and> get_prop r ''output'' = Inr (JArr items)
            \<and> list_all2
                 (\<lambda>item texts. \<exists>c. get_prop item ''content'' = Inr c
                    \<and> (if nullish c then texts = []
                        else \<exists>frags. c = JArr frags
                               \<and> list_all2 (\<lambda>frag s. \<exists>v. get_prop frag ''text'' = Inr v
                                      \<and> (if nullish v then s = [] else v = JStr s)) frags texts))
                 items textss"
  then have "list_all2
               (\<lambda>item texts. \<exists>v. item_text env item = Inr v
                  \<and> (if nullish v then Inr [] else to_string env v) = Inr (concat texts))
               items textss"
  proof (elim conjE list_all2_mono)
    fix item :: "'n jsval" and texts :: "string list"
    assume "\<exists>c. get_prop item ''content'' = Inr c
              \<and> (if nullish c then texts = []
                  else \<exists>frags. c = JArr frags
                         \<and> list_all2 (\<lambda>frag s. \<exists>v. get_prop frag ''text'' = Inr v
                                \<and> (if nullish v then s = [] else v = JStr s)) frags texts)"
    then obtain c where "get_prop item ''content'' = Inr c"
      and "if nullish c then texts = []
           else \<exists>frags. c = JArr frags
                  \<and> list_all2 (\<lambda>frag s. \<exists>v. get_prop frag ''text'' = Inr v
                         \<and> (if nullish v then s = [] else v = JStr s)) frags texts"
      by blast
    then show "\<exists>v. item_text env item = Inr v
                \<and> (if nullish v then Inr [] else to_string env v) = Inr (concat texts)"
      by (rule item_text_of_fragments)
  qed
  from list_all2_compose [OF this] obtain vs
    where m: "list_all2 (\<lambda>item v. item_text env item = Inr v) items vs"
      and e: "list_all2 (\<lambda>v texts. (if nullish v then Inr [] else to_string env v)
                                      = Inr (concat texts)) vs textss"
    by blast
  have "list_all2 (\<lambda>v s. (if nullish v then Inr [] else to_string env v) = Inr s)
          vs (map concat textss)"
    using e by (simp add: list_all2_map2)
  then have j: "array_join env ''\<newline>'' vs = Inr (join_strings ''\<newline>'' (map concat textss))"
    by (rule array_join_elements)
  show "response_text env r = Inr (JStr (join_strings ''\<newline>'' (map concat textss)))"
    using assms a call_map_elements [OF m] j by (simp add: response_text_def)
qed

text \<open>
  C3. For a request whose prompt assembles and whose completion call succeeds with the
  response \<open>r\<close>, where \<^verbatim>\<open>r.output_text\<close> reads as \<open>t\<close>: when \<open>t\<close> is not
  \<^verbatim>\<open>null\<close> or \<^verbatim>\<open>undefined\<close>, the extracted text is \<open>t\<close>, and
  \<^verbatim>\<open>getChatResponse\<close> returns it. Otherwise, when \<^verbatim>\<open>r.output\<close> is an array of
  items, each with a content array of fragments whose \<^verbatim>\<open>text\<close> fields are the
  strings \<open>texts\<close> (an item without content has none, a fragment without text counts as
  empty), the extracted text, which \<^verbatim>\<open>getChatResponse\<close> returns, is each item's
  texts concatenated, the items joined with a newline. Otherwise, when there is no
  \<^verbatim>\<open>r.output\<close> either, \<^verbatim>\<open>getChatResponse\<close> returns the empty string.
\<close>

theorem C3_response_text:
  assumes "fullPrompt env p = Inr full"
      and "responses_create env
             \<lparr>model = ''gpt-5'', temperature = 7 / 10, max_output_tokens = 1024,
              input = [\<lparr>role = ro,
                        content = [\<lparr>part_type = ''text'', part_text = full\<rparr>]\<rparr>]\<rparr>
           = Inr (r :: 'n jsval)"
      and "get_prop r ''output_text'' = Inr t"
  shows "(\<not> nullish t
          \<longrightarrow> response_text env r = Inr t \<and> snd (getChatResponse env ro p) = Inr t)
       \<and> (nullish t \<and> get_prop r ''output'' = Inr (JArr items)
            \<and> list_all2
                 (\<lambda>item texts. \<exists>c. get_prop item ''content'' = Inr c
                    \<and> (if nullish c then texts = []
                        else \<exists>frags. c = JArr frags
                               \<and> list_all2 (\<lambda>frag s. \<exists>v. get_prop frag ''text'' = Inr v
                                      \<and> (if nullish v then s = [] else v = JStr s)) frags texts))
                 items textss
          \<longrightarrow> response_text env r = Inr (JStr (join_strings ''\<newline>'' (map concat textss)))
            \<and> snd (getChatResponse env ro p)
                = Inr (JStr (join_strings ''\<newline>'' (map concat textss))))
       \<and> (nullish t \<and> (\<exists>out. get_prop r ''output'' = Inr out \<and> nullish out)
          \<longrightarrow> response_text env r = Inr (JStr '''')
            \<and> snd (getChatResponse env ro p) = Inr (JStr ''''))"
proof -
  have ret: "snd (getChatResponse env ro p) = Inr x" if "response_text env r = Inr x" for x
    using getChatResponse_returns [OF assms(1), of ro] assms(2) that by simp
  note cases = response_text_cases [OF assms(3), of env items textss]
  show ?thesis
  proof (intro conjI impI)
    assume "\<not> nullish t"
    with cases show "response_text env r = Inr t" by blast
    then show "snd (getChatResponse env ro p) = Inr t" by (rule ret)
  next
    assume "nullish t \<and> get_prop r ''output'' = Inr (JArr items)
            \<and> list_all2
                 (\<lambda>item texts. \<exists>c. get_prop item ''content'' = Inr c
                    \<and> (if nullish c then texts = []
                        else \<exists>frags. c = JArr frags
                               \<and> list_all2 (\<lambda>frag s. \<exists>v. get_prop frag ''text'' = Inr v
                                      \<and> (if nullish v then s = [] else v = JStr s)) frags texts))
                 items textss"
    with cases
    show "response_text env r = Inr (JStr (join_strings ''\<newline>'' (map concat textss)))"
      by blast
    then show "snd (getChatResponse env ro p)
                = Inr (JStr (join_strings ''\<newline>'' (map concat textss)))"
      by (rule ret)
  next
    assume "nullish t \<and> (\<exists>out. get_prop r ''output'' = Inr out \<and> nullish out)"
    with cases show "response_text env r = Inr (JStr '''')" by blast
    then show "snd (getChatResponse env ro p) = Inr (JStr '''')" by (rule ret)
  qed
qed

text \<open>
  The three cases on concrete services: one that answers with two output items and no
  \<^verbatim>\<open>output_text\<close>, one that answers with \<^verbatim>\<open>output_text\<close>, and one whose
  response has neither field.
\<close>

theorem C3_response_text_witness:
  "responses_create env_fallback
       \<lparr>model = ''gpt-5'', temperature = 7 / 10, max_output_tokens = 1024,
        input = [\<lparr>role = ''user'',
                  content = [\<lparr>part_type = ''text'',
                              part_text = ''G\<newline>---\<newline>A\<newline>B\<newline>---\<newline>P''\<rparr>]\<rparr>]\<rparr>
     = Inr response_fallback
   \<and> get_prop response_fallback ''output_text'' = Inr JUndefined
   \<and> snd (getChatResponse env_fallback ''user'' ''P'') = Inr (JStr ''\<newline>Hello'')
   \<and> snd (getChatResponse env_AB_G ''user'' ''P'') = Inr (JStr ''Hello'')
   \<and> snd (getChatResponse env_bare ''user'' ''P'') = Inr (JStr [])"
proof -
  have fa: "fullPrompt env_fallback ''P'' = Inr ''G\<newline>---\<newline>A\<newline>B\<newline>---\<newline>P''"
    by (simp add: env_fallback_def fullPrompt_AB_G)
  have ca: "responses_create env_fallback
       \<lparr>model = ''gpt-5'', temperature = 7 / 10, max_output_tokens = 1024,
        input = [\<lparr>role = ''user'',
                  content = [\<lparr>part_type = ''text'',
                              part_text = ''G\<newline>---\<newline>A\<newline>B\<newline>---\<newline>P''\<rparr>]\<rparr>]\<rparr>
     = Inr response_fallback"
    by (simp add: env_fallback_def example_readFile service_fallback_def)
  have ta: "get_prop response_fallback ''output_text'' = Inr JUndefined"
    by (simp add: response_fallback_def)
  have o: "get_prop response_fallback ''output'' = Inr (JArr output_items)"
    by (simp add: response_fallback_def)
  have i: "list_all2
             (\<lambda>item texts. \<exists>c. get_prop item ''content'' = Inr c
                \<and> (if nullish c then texts = []
                    else \<exists>frags. c = JArr frags
                           \<and> list_all2 (\<lambda>frag s. \<exists>v. get_prop frag ''text'' = Inr v
                                  \<and> (if nullish v then s = [] else v = JStr s)) frags texts))
             output_items [[], [''Hel'', [], ''lo'']]"
    by (simp add: output_items_def)
  have a: "snd (getChatResponse env_fallback ''user'' ''P'') = Inr (JStr ''\<newline>Hello'')"
    using C3_response_text [OF fa ca ta, where items = output_items
        and textss = "[[], [''Hel'', [], ''lo'']]"] o i
    by simp
  have fb: "fullPrompt env_AB_G ''P'' = Inr ''G\<newline>---\<newline>A\<newline>B\<newline>---\<newline>P''"
    by (simp add: env_AB_G_def fullPrompt_AB_G)
  have cb: "responses_create env_AB_G
       \<lparr>model = ''gpt-5'', temperature = 7 / 10, max_output_tokens = 1024,
        input = [\<lparr>role = ''user'',
                  content = [\<lparr>part_type = ''text'',
                              part_text = ''G\<newline>---\<newline>A\<newline>B\<newline>---\<newline>P''\<rparr>]\<rparr>]\<rparr>
     = Inr (JObj [(''output_text'', JStr ''Hello'')])"
    by (simp add: env_AB_G_def example_readFile service_hello_def)
  have tb: "get_prop (JObj [(''output_text'', JStr ''Hello'')] :: unit jsval) ''output_text''
              = Inr (JStr ''Hello'')"
    by simp
  have b: "snd (getChatResponse env_AB_G ''user'' ''P'') = Inr (JStr ''Hello'')"
    using C3_response_text [OF fb cb tb] by simp
  have fc: "fullPrompt env_bare ''P'' = Inr ''G\<newline>---\<newline>A\<newline>B\<newline>---\<newline>P''"
    by (simp add: env_bare_def fullPrompt_AB_G)
  have cc: "responses_create env_bare
       \<lparr>model = ''gpt-5'', temperature = 7 / 10, max_output_tokens = 1024,
        input = [\<lparr>role = ''user'',
                  content = [\<lparr>part_type = ''text'',
                              part_text = ''G\<newline>---\<newline>A\<newline>B\<newline>---\<newline>P''\<rparr>]\<rparr>]\<rparr>
     = Inr (JObj [(''id'', JStr ''resp_2'')])"
    by (simp add: env_bare_def example_readFile service_bare_def)
  have tc: "get_prop (JObj [(''id'', JStr ''resp_2'')] :: unit jsval) ''output_text''
              = Inr JUndefined"
    by simp
  have c: "snd (getChatResponse env_bare ''user'' ''P'') = Inr (JStr [])"
    using C3_response_text [OF fc cc tc] by simp
  show ?thesis using ca ta a b c by simp
qed

subsection \<open>Resource files the assembler cannot use\<close>

text \<open>
  C4. The claim does not hold of the code: a context file that parses, but not to an
  array, makes the assembler throw. Here the file holds the JSON object \<^verbatim>\<open>{}\<close>;
  reading and parsing succeed, and \<^verbatim>\<open>contextArr.map\<close> on line 95, outside the
  \<^verbatim>\<open>try\<close>, throws a \<^verbatim>\<open>TypeError\<close>.
\<close>

theorem C4_context_object_throws:
  "readFile env_context_object ''data/context.json'' = Inr ''{}''
   \<and> JSON_parse env_context_object ''{}'' = Inr (JObj [])
   \<and> fullPrompt env_context_object ''Hello''
       = Inl (TypeError ''contextArr.map is not a function'')"
  by (simp add: fullPrompt_def contextString_def load_context_def env_context_object_def
      example_readFile example_parse_simps)

text \<open>
  C5. When the context file is missing, unparsable or holds the empty array, and the
  guardrail file is missing, unparsable, or holds an object with no \<^verbatim>\<open>prompt\<close> or
  an empty one, the composite input is the caller's prompt, unchanged, and it is the text
  of the message sent to the completion service.
\<close>

theorem C5_prompt_only:
  assumes "(\<exists>e. readFile env ''data/context.json'' = Inl e)
         \<or> (\<exists>raw. readFile env ''data/context.json'' = Inr raw
                \<and> ((\<exists>e. JSON_parse env raw = Inl e) \<or> JSON_parse env raw = Inr (JArr [])))"
      and "(\<exists>e. readFile env ''data/guardrail.json'' = Inl e)
         \<or> (\<exists>raw. readFile env ''data/guardrail.json'' = Inr raw
                \<and> ((\<exists>e. JSON_parse env raw = Inl e)
                   \<or> JSON_parse env raw = Inr (JObj [])
                   \<or> JSON_parse env raw = Inr (JObj [(''prompt'', JStr '''')])))"
  shows "fullPrompt env p = Inr p
       \<and> map (\<lambda>params. map (\<lambda>m. map part_text (content m)) (input params))
             (fst (getChatResponse env r p)) = [[[p]]]"
proof -
  have c: "load_context env = JArr []"
    using assms(1) by (auto simp add: load_context_def)
  have g: "load_guardrail env = JStr ''''"
    using assms(2) by (auto simp add: load_guardrail_def)
  have cs: "contextString env = Inr ''''"
    using c by (simp add: contextString_def array_join_def)
  have full: "fullPrompt env p = Inr p"
    using fullPrompt_of_strings [OF cs g, of p] by simp
  show ?thesis
    using full getChatResponse_sends [OF full, of r] by simp
qed

text \<open>Both files missing: the prompt goes through unchanged.\<close>

theorem C5_prompt_only_witness:
  "fullPrompt env_no_files ''What is a monad?'' = Inr ''What is a monad?''"
proof -
  have c: "\<exists>e. readFile env_no_files ''data/context.json'' = Inl e"
    by (simp add: env_no_files_def example_readFile)
  have g: "\<exists>e. readFile env_no_files ''data/guardrail.json'' = Inl e"
    by (simp add: env_no_files_def example_readFile)
  show ?thesis
    using C5_prompt_only [of env_no_files "''What is a monad?''" "''user''"] c g by blast
qed

subsection \<open>The handler's responses\<close>

text \<open>
  C6. The claim does not hold of the code: for a valid body, with the context file of C4
  (the JSON object \<^verbatim>\<open>{}\<close>), \<^verbatim>\<open>getChatResponse\<close> throws before any request is
  sent to the completion service, the handler's promise rejects, and the handler sends no
  response with status 200.
\<close>

theorem C6_context_object_rejects:
  "bodySchema_validate [(''role'', JStr ''user''), (''prompt'', JStr ''Hello'' :: unit jsval)]
     = Inr (''user'', ''Hello'')
   \<and> chat_handler env_context_object [(''role'', JStr ''user''), (''prompt'', JStr ''Hello'')]
       = ([], Rejected (TypeError ''contextArr.map is not a function''))"
  by (simp add: chat_handler_def bodySchema_validate_def getChatResponse_def
      fullPrompt_def contextString_def load_context_def env_context_object_def
      example_readFile example_parse_simps)

text \<open>
  C7. For a request body in which \<^verbatim>\<open>role\<close> or \<^verbatim>\<open>prompt\<close> is missing, empty or not
  a string, the handler sends no request to the completion service and responds with
  status 400 and the body \<^verbatim>\<open>{ok: false, error: {type: "BadRequest", message}}\<close>,
  where the message joins the reports of all violated constraints: the report for
  \<^verbatim>\<open>role\<close>, if it violates one, then the report for \<^verbatim>\<open>prompt\<close>, if it does. When
  both fields are absent the message names both as required.
\<close>

theorem C7_bad_request:
  assumes "\<not> (\<exists>r p. own_prop (JObj body) ''role'' = JStr r \<and> r \<noteq> []
                  \<and> own_prop (JObj body) ''prompt'' = JStr p \<and> p \<noteq> [])"
  shows "chat_handler env body =
           ([], Response 400
                  (JObj [(''ok'', JBool False),
                         (''error'', JObj [(''type'', JStr ''BadRequest''),
                                           (''message'',
                                            JStr (join_strings ''. '' (violations body)))])]))
       \<and> violations body \<noteq> []
       \<and> violations body =
           (case field_violation ''role'' (own_prop (JObj body) ''role'') of
              None \<Rightarrow> [] | Some v \<Rightarrow> [v])
           @ (case field_violation ''prompt'' (own_prop (JObj body) ''prompt'') of
                None \<Rightarrow> [] | Some v \<Rightarrow> [v])
       \<and> (map_of body ''role'' = None \<and> map_of body ''prompt'' = None
            \<longrightarrow> join_strings ''. '' (violations body) = both_required)"
proof -
  have h: "chat_handler env body =
           ([], Response 400
                  (JObj [(''ok'', JBool False),
                         (''error'', JObj [(''type'', JStr ''BadRequest''),
                                           (''message'',
                                            JStr (join_strings ''. '' (violations body)))])]))"
    using validate_invalid [OF assms] by (simp add: chat_handler_def)
  have v: "violations body =
           (case field_violation ''role'' (own_prop (JObj body) ''role'') of
              None \<Rightarrow> [] | Some v \<Rightarrow> [v])
           @ (case field_violation ''prompt'' (own_prop (JObj body) ''prompt'') of
                None \<Rightarrow> [] | Some v \<Rightarrow> [v])"
    by (simp add: violations_def split: option.splits)
  have n: "violations body \<noteq> []"
  proof
    assume "violations body = []"
    then have "field_violation ''role'' (own_prop (JObj body) ''role'') = None"
      and "field_violation ''prompt'' (own_prop (JObj body) ''prompt'') = None"
      unfolding v by (simp_all split: option.splits)
    then show False
      using assms unfolding field_violation_None_iff by blast
  qed
  have b: "map_of body ''role'' = None \<and> map_of body ''prompt'' = None
            \<longrightarrow> join_strings ''. '' (violations body) = both_required"
    by (simp add: v both_required_def)
  show ?thesis using h v n b by blast
qed

text \<open>A body with neither field: status 400, and the message names both.\<close>

theorem C7_bad_request_witness:
  "chat_handler env_AB_G body_empty =
     ([], Response 400
            (JObj [(''ok'', JBool False),
                   (''error'', JObj [(''type'', JStr ''BadRequest''),
                                     (''message'', JStr both_required)])]))"
proof -
  have a: "\<not> (\<exists>r p. own_prop (JObj body_empty) ''role'' = JStr r \<and> r \<noteq> []
                  \<and> own_prop (JObj body_empty) ''prompt'' = JStr p \<and> p \<noteq> [])"
    by (simp add: body_empty_def)
  have m: "map_of body_empty ''role'' = None \<and> map_of body_empty ''prompt'' = None"
    by (simp add: body_empty_def)
  note inst = C7_bad_request [OF a, of env_AB_G]
  from inst have h: "chat_handler env_AB_G body_empty =
     ([], Response 400
            (JObj [(''ok'', JBool False),
                   (''error'', JObj [(''type'', JStr ''BadRequest''),
                                     (''message'',
                                      JStr (join_strings ''. '' (violations body_empty)))])]))"
    by (rule conjunct1)
  from inst m have j: "join_strings ''. '' (violations body_empty) = both_required"
    by blast
  show ?thesis
    unfolding h j by (rule refl)
qed

subsection \<open>The model preset\<close>

text \<open>
  C8. Whatever the request body, every request the handler sends to the completion
  service carries the preset stored under \<^verbatim>\<open>gpt-5\<close> (model \<^verbatim>\<open>gpt-5\<close>,
  temperature 0.7, at most 1024 output tokens), although the table holds two more
  presets; for a valid body whose prompt assembles, one request is sent; and the
  \<^verbatim>\<open>model\<close> field of every response with status 200 is the string \<^verbatim>\<open>gpt-5\<close>.
\<close>

theorem C8_fixed_preset:
  "(\<forall>params \<in> set (fst (chat_handler env body)).
       model params = ''gpt-5'' \<and> temperature params = 7 / 10
       \<and> max_output_tokens params = 1024)
   \<and> (bodySchema_validate body = Inr (r, p) \<and> fullPrompt env p = Inr full
        \<longrightarrow> length (fst (chat_handler env body)) = 1)
   \<and> (\<forall>b. snd (chat_handler env body) = Response 200 b
        \<longrightarrow> get_prop b ''model'' = Inr (JStr ''gpt-5''))
   \<and> map_of MODEL_PRESETS ''gpt-5''
        = Some \<lparr>model = ''gpt-5'', temperature = 7 / 10, max_output_tokens = 1024\<rparr>
   \<and> map fst MODEL_PRESETS = [''gpt-5'', ''gpt-5-mini'', ''gpt-5-chat-latest'']"
proof (intro conjI)
  show "\<forall>params \<in> set (fst (chat_handler env body)).
       model params = ''gpt-5'' \<and> temperature params = 7 / 10
       \<and> max_output_tokens params = 1024"
    by (auto simp add: chat_handler_calls getChatResponse_calls split: sum.splits prod.splits)
  show "bodySchema_validate body = Inr (r, p) \<and> fullPrompt env p = Inr full
        \<longrightarrow> length (fst (chat_handler env body)) = 1"
    by (simp add: chat_handler_calls getChatResponse_calls)
  show "\<forall>b. snd (chat_handler env body) = Response 200 b
        \<longrightarrow> get_prop b ''model'' = Inr (JStr ''gpt-5'')"
    by (auto simp add: chat_handler_def split: sum.splits prod.splits)
  show "map_of MODEL_PRESETS ''gpt-5''
        = Some \<lparr>model = ''gpt-5'', temperature = 7 / 10, max_output_tokens = 1024\<rparr>"
    by (rule preset_gpt5)
  show "map fst MODEL_PRESETS = [''gpt-5'', ''gpt-5-mini'', ''gpt-5-chat-latest'']"
    by (simp add: MODEL_PRESETS_def)
qed

text \<open>
  A body that asks for \<^verbatim>\<open>gpt-5-mini\<close>: the field is dropped, the request and the
  response name \<^verbatim>\<open>gpt-5\<close>.
\<close>

theorem C8_fixed_preset_witness:
  "map_of body_system_P ''model'' = Some (JStr ''gpt-5-mini'')
   \<and> map model (fst (chat_handler env_AB_G body_system_P)) = [''gpt-5'']
   \<and> map temperature (fst (chat_handler env_AB_G body_system_P)) = [7 / 10]
   \<and> map max_output_tokens (fst (chat_handler env_AB_G body_system_P)) = [1024]
   \<and> snd (chat_handler env_AB_G body_system_P) =
       Response 200
         (JObj [(''ok'', JBool True), (''model'', JStr ''gpt-5''),
                (''output_text'', JStr ''Hello''), (''usage'', JNull), (''raw'', JNull)])
   \<and> get_prop (JObj [(''ok'', JBool True), (''model'', JStr ''gpt-5''),
                (''output_text'', JStr ''Hello'' :: unit jsval), (''usage'', JNull), (''raw'', JNull)])
         ''model'' = Inr (JStr ''gpt-5'')"
proof -
  have f: "fullPrompt env_AB_G ''P'' = Inr ''G\<newline>---\<newline>A\<newline>B\<newline>---\<newline>P''"
    by (simp add: env_AB_G_def fullPrompt_AB_G)
  have s: "snd (chat_handler env_AB_G body_system_P) =
       Response 200
         (JObj [(''ok'', JBool True), (''model'', JStr ''gpt-5''),
                (''output_text'', JStr ''Hello''), (''usage'', JNull), (''raw'', JNull)])"
    using getChatResponse_returns [OF f, of "''system''"]
    by (simp add: chat_handler_valid(2) [OF validate_examples(2)] env_AB_G_def example_readFile
        service_hello_def response_text_def)
  note inst = C8_fixed_preset [of env_AB_G body_system_P "''system''" "''P''"
      "''G\<newline>---\<newline>A\<newline>B\<newline>---\<newline>P''"]
  from inst have a: "\<forall>params \<in> set (fst (chat_handler env_AB_G body_system_P)).
       model params = ''gpt-5'' \<and> temperature params = 7 / 10
       \<and> max_output_tokens params = 1024"
    by (rule conjunct1)
  from inst validate_examples(2) f
  have "length (fst (chat_handler env_AB_G body_system_P)) = 1"
    by blast
  then obtain params where c: "fst (chat_handler env_AB_G body_system_P) = [params]"
    by (cases "fst (chat_handler env_AB_G body_system_P)") simp_all
  from a c have m: "map model (fst (chat_handler env_AB_G body_system_P)) = [''gpt-5'']"
    and t: "map temperature (fst (chat_handler env_AB_G body_system_P)) = [7 / 10]"
    and x: "map max_output_tokens (fst (chat_handler env_AB_G body_system_P)) = [1024]"
    by simp_all
  from inst have "\<forall>b. snd (chat_handler env_AB_G body_system_P) = Response 200 b
        \<longrightarrow> get_prop b ''model'' = Inr (JStr ''gpt-5'')"
    by blast
  with s have g: "get_prop (JObj [(''ok'', JBool True), (''model'', JStr ''gpt-5''),
                (''output_text'', JStr ''Hello'' :: unit jsval), (''usage'', JNull), (''raw'', JNull)])
         ''model'' = Inr (JStr ''gpt-5'')"
    by blast
  have b: "map_of body_system_P ''model'' = Some (JStr ''gpt-5-mini'')"
    by (simp add: body_system_P_def)
  from b m t x s g show ?thesis by blast
qed

subsection \<open>The caller's role\<close>

text \<open>
  C9. For two valid request bodies with the same prompt and different roles, in the same
  environment, the texts of the messages sent to the completion service are the same; the
  requests of the second are those of the first with the role of each message replaced;
  and every message sent carries the caller's role and, as its text, the composite input,
  which is computed from the environment and the prompt alone.
\<close>

theorem C9_role_only_in_message:
  assumes "bodySchema_validate body1 = Inr (r1, p)"
      and "bodySchema_validate body2 = Inr (r2, p)"
  shows "map (\<lambda>params. map (\<lambda>m. map part_text (content m)) (input params))
             (fst (chat_handler env body1))
         = map (\<lambda>params. map (\<lambda>m. map part_text (content m)) (input params))
             (fst (chat_handler env body2))
       \<and> fst (chat_handler env body2)
           = map (\<lambda>params. params\<lparr>input := map (\<lambda>m. m\<lparr>role := r2\<rparr>) (input params)\<rparr>)
               (fst (chat_handler env body1))
       \<and> (\<forall>params \<in> set (fst (chat_handler env body1)).
             map role (input params) = [r1]
             \<and> (\<exists>full. fullPrompt env p = Inr full
                  \<and> map (\<lambda>m. map part_text (content m)) (input params) = [[full]]))"
  using assms
  by (auto simp add: chat_handler_calls getChatResponse_calls split: sum.splits)

text \<open>The same prompt sent as \<^verbatim>\<open>user\<close> and as \<^verbatim>\<open>system\<close>.\<close>

theorem C9_role_only_in_message_witness:
  "bodySchema_validate body_user_P = Inr (''user'', ''P'')
   \<and> bodySchema_validate body_system_P = Inr (''system'', ''P'')
   \<and> map (\<lambda>params. map (\<lambda>m. map part_text (content m)) (input params))
         (fst (chat_handler env_AB_G body_user_P))
       = [[[''G\<newline>---\<newline>A\<newline>B\<newline>---\<newline>P'']]]
   \<and> map (\<lambda>params. map (\<lambda>m. map part_text (content m)) (input params))
         (fst (chat_handler env_AB_G body_system_P))
       = [[[''G\<newline>---\<newline>A\<newline>B\<newline>---\<newline>P'']]]
   \<and> map (\<lambda>params. map role (input params)) (fst (chat_handler env_AB_G body_user_P))
       = [[''user'']]
   \<and> map (\<lambda>params. map role (input params)) (fst (chat_handler env_AB_G body_system_P))
       = [[''system'']]"
proof -
  have f: "fullPrompt env_AB_G ''P'' = Inr ''G\<newline>---\<newline>A\<newline>B\<newline>---\<newline>P''"
    by (simp add: env_AB_G_def fullPrompt_AB_G)
  have u: "fst (chat_handler env_AB_G body_user_P) =
     [\<lparr>model = ''gpt-5'', temperature = 7 / 10, max_output_tokens = 1024,
       input = [\<lparr>role = ''user'',
                 content = [\<lparr>part_type = ''text'',
                             part_text = ''G\<newline>---\<newline>A\<newline>B\<newline>---\<newline>P''\<rparr>]\<rparr>]\<rparr>]"
    by (simp add: chat_handler_calls validate_examples getChatResponse_calls f)
  note inst = C9_role_only_in_message [OF validate_examples(1) validate_examples(2), of env_AB_G]
  from inst have "fst (chat_handler env_AB_G body_system_P)
           = map (\<lambda>params. params\<lparr>input := map (\<lambda>m. m\<lparr>role := ''system''\<rparr>) (input params)\<rparr>)
               (fst (chat_handler env_AB_G body_user_P))"
    by blast
  then have s: "fst (chat_handler env_AB_G body_system_P) =
     [\<lparr>model = ''gpt-5'', temperature = 7 / 10, max_output_tokens = 1024,
       input = [\<lparr>role = ''system'',
                 content = [\<lparr>part_type = ''text'',
                             part_text = ''G\<newline>---\<newline>A\<newline>B\<newline>---\<newline>P''\<rparr>]\<rparr>]\<rparr>]"
    by (simp add: u)
  show ?thesis
    by (simp add: u s validate_examples)
qed

subsection \<open>A guardrail file without a usable prompt\<close>

text \<open>
  C10. When the guardrail file parses and the \<^verbatim>\<open>prompt\<close> of the parsed value is
  falsy (absent, \<^verbatim>\<open>null\<close>, the empty string, \<^verbatim>\<open>false\<close>, a falsy number) or cannot
  be read, the guardrail directive is the empty string, as it is when reading the file
  fails or parsing its text fails; the composite input is the same as with an unreadable
  guardrail file, and it is made of the context block and the prompt alone (the non-empty
  ones, with the separator between them only).
\<close>

theorem C10_falsy_guardrail:
  assumes "readFile env ''data/guardrail.json'' = Inr raw"
      and "JSON_parse env raw = Inr g"
      and "\<forall>v. get_prop g ''prompt'' = Inr v \<longrightarrow> \<not> truthy env v"
  shows "load_guardrail env = JStr ''''
       \<and> load_guardrail env
           = load_guardrail (env\<lparr>readFile := (readFile env)(''data/guardrail.json'' := Inl e)\<rparr>)
       \<and> load_guardrail env
           = load_guardrail (env\<lparr>JSON_parse := (JSON_parse env)(raw := Inl e)\<rparr>)
       \<and> fullPrompt env p
           = fullPrompt (env\<lparr>readFile := (readFile env)(''data/guardrail.json'' := Inl e)\<rparr>) p
       \<and> fullPrompt env p
           = bindE (contextString env)
               (\<lambda>cs. Inr (join_strings ''\<newline>---\<newline>'' (filter (\<lambda>s. s \<noteq> []) [cs, p])))"
proof -
  let ?env' = "env\<lparr>readFile := (readFile env)(''data/guardrail.json'' := Inl e)\<rparr>"
  have g: "load_guardrail env = JStr ''''"
    using assms by (cases "get_prop g ''prompt''") (simp_all add: load_guardrail_def)
  have g': "load_guardrail ?env' = JStr ''''"
    by (simp add: load_guardrail_def)
  have g'': "load_guardrail (env\<lparr>JSON_parse := (JSON_parse env)(raw := Inl e)\<rparr>) = JStr ''''"
    using assms(1) by (simp add: load_guardrail_def)
  have c: "load_context ?env' = load_context env"
    by (simp add: load_context_def split: sum.splits)
  have t: "truthy ?env' = truthy env"
    by (rule truthy_env) simp
  have ts: "to_string ?env' x = to_string env x" for x
    by (rule to_string_env) simp
  have aj: "array_join ?env' sep xs = array_join env sep xs" for sep xs
    by (simp add: array_join_def ts cong: if_cong)
  have cs: "contextString ?env' = contextString env"
    by (simp add: contextString_def c aj)
  have eq: "fullPrompt env p = fullPrompt ?env' p"
    by (simp add: fullPrompt_def g g' cs aj t del: filter.simps)
  have expl: "fullPrompt env p
           = bindE (contextString env)
               (\<lambda>cs. Inr (join_strings ''\<newline>---\<newline>'' (filter (\<lambda>s. s \<noteq> []) [cs, p])))"
  proof (cases "contextString env")
    case (Inl a)
    then show ?thesis by (simp add: fullPrompt_def)
  next
    case (Inr cs)
    show ?thesis
      using fullPrompt_of_strings [OF Inr g, of p] Inr by simp
  qed
  show ?thesis using g g' g'' eq expl by simp
qed

text \<open>
  A guardrail file with \<^verbatim>\<open>prompt: null\<close>: the composite input starts with the
  context block.
\<close>

theorem C10_falsy_guardrail_witness:
  "load_guardrail env_guardrail_null = JStr ''''
   \<and> fullPrompt env_guardrail_null ''P'' = Inr ''A\<newline>B\<newline>---\<newline>P''"
proof -
  have r: "readFile env_guardrail_null ''data/guardrail.json'' = Inr guardrail_null"
    by (simp add: env_guardrail_null_def example_readFile)
  have j: "JSON_parse env_guardrail_null guardrail_null = Inr (JObj [(''prompt'', JNull)])"
    by (simp add: env_guardrail_null_def example_readFile example_parse_simps)
  have f: "\<forall>v. get_prop (JObj [(''prompt'', JNull :: unit jsval)]) ''prompt'' = Inr v
             \<longrightarrow> \<not> truthy env_guardrail_null v"
    by simp
  have cs: "contextString env_guardrail_null = Inr ''A\<newline>B''"
    by (simp add: contextString_def load_context_def env_guardrail_null_def example_readFile
        example_parse_simps array_join_def)
  note inst = C10_falsy_guardrail [OF r j f, of ENOENT "''P''"]
  from inst have g: "load_guardrail env_guardrail_null = JStr ''''"
    by (rule conjunct1)
  from inst have "fullPrompt env_guardrail_null ''P''
           = bindE (contextString env_guardrail_null)
               (\<lambda>cs. Inr (join_strings ''\<newline>---\<newline>''
                             (filter (\<lambda>s. s \<noteq> []) [cs, ''P''])))"
    by blast
  then have "fullPrompt env_guardrail_null ''P'' = Inr ''A\<newline>B\<newline>---\<newline>P''"
    by (simp add: cs)
  with g show ?thesis by simp
qed

subsection \<open>What holds of the assembler when a file cannot be read or parsed\<close>

text \<open>
  X1. A failure to read or to parse the context file gives the empty context sequence and
  the empty context block; a failure to read or to parse the guardrail file gives the
  empty guardrail directive; when both fail, assembly completes with the prompt alone.
\<close>

theorem X1_load_failures_degrade:
  "((\<exists>e. readFile env ''data/context.json'' = Inl e)
      \<or> (\<exists>raw e. readFile env ''data/context.json'' = Inr raw \<and> JSON_parse env raw = Inl e)
     \<longrightarrow> load_context env = JArr [] \<and> contextString env = Inr '''')
   \<and> ((\<exists>e. readFile env ''data/guardrail.json'' = Inl e)
      \<or> (\<exists>raw e. readFile env ''data/guardrail.json'' = Inr raw \<and> JSON_parse env raw = Inl e)
     \<longrightarrow> load_guardrail env = JStr '''')
   \<and> (((\<exists>e. readFile env ''data/context.json'' = Inl e)
        \<or> (\<exists>raw e. readFile env ''data/context.json'' = Inr raw \<and> JSON_parse env raw = Inl e))
      \<and> ((\<exists>e. readFile env ''data/guardrail.json'' = Inl e)
        \<or> (\<exists>raw e. readFile env ''data/guardrail.json'' = Inr raw
              \<and> JSON_parse env raw = Inl e))
     \<longrightarrow> fullPrompt env p = Inr p)"
proof -
  have c: "load_context env = JArr [] \<and> contextString env = Inr ''''"
    if "(\<exists>e. readFile env ''data/context.json'' = Inl e)
      \<or> (\<exists>raw e. readFile env ''data/context.json'' = Inr raw \<and> JSON_parse env raw = Inl e)"
    using that by (auto simp add: load_context_def contextString_def array_join_def)
  have g: "load_guardrail env = JStr ''''"
    if "(\<exists>e. readFile env ''data/guardrail.json'' = Inl e)
      \<or> (\<exists>raw e. readFile env ''data/guardrail.json'' = Inr raw \<and> JSON_parse env raw = Inl e)"
    using that by (auto simp add: load_guardrail_def)
  have f: "fullPrompt env p = Inr p"
    if "contextString env = Inr ''''" and "load_guardrail env = JStr ''''"
    using fullPrompt_of_strings [OF that, of p] by simp
  show ?thesis
    using c g f by blast
qed

text \<open>A guardrail file cut short, and no context file.\<close>

theorem X1_load_failures_degrade_witness:
  "readFile env_truncated ''data/context.json'' = Inl ENOENT
   \<and> readFile env_truncated ''data/guardrail.json'' = Inr guardrail_truncated
   \<and> JSON_parse env_truncated guardrail_truncated = Inl SyntaxError
   \<and> load_context env_truncated = JArr []
   \<and> load_guardrail env_truncated = JStr ''''
   \<and> fullPrompt env_truncated ''P'' = Inr ''P''"
proof -
  have c: "readFile env_truncated ''data/context.json'' = Inl ENOENT"
    by (simp add: env_truncated_def example_readFile)
  have r: "readFile env_truncated ''data/guardrail.json'' = Inr guardrail_truncated"
    by (simp add: env_truncated_def example_readFile)
  have j: "JSON_parse env_truncated guardrail_truncated = Inl SyntaxError"
    by (simp add: env_truncated_def example_readFile example_parse_def guardrail_truncated_def
        context_AB_def guardrail_G_def guardrail_null_def)
  note inst = X1_load_failures_degrade [of env_truncated "''P''"]
  from inst c have lc: "load_context env_truncated = JArr []"
    by blast
  from inst r j have lg: "load_guardrail env_truncated = JStr ''''"
    by blast
  from inst c r j have f: "fullPrompt env_truncated ''P'' = Inr ''P''"
    by blast
  from c r j lc lg f show ?thesis by blast
qed

subsection \<open>What holds of the handler once the prompt is assembled\<close>

text \<open>
  Whatever the operations of the language throw is a \<^verbatim>\<open>TypeError\<close>, and the
  \<^verbatim>\<open>catch\<close> clause turns a \<^verbatim>\<open>TypeError\<close> into a placeholder string.
\<close>

lemma get_prop_throws:
  "get_prop v name = Inl e \<Longrightarrow> \<exists>msg. e = TypeError msg"
  by (cases v) auto

lemma sequence_throws:
  "sequence xs = Inl e \<Longrightarrow> Inl e \<in> set xs"
  by (induction xs) (auto split: sum.splits)

lemma bindE_Inl_iff:
  "bindE m f = Inl e \<longleftrightarrow> m = Inl e \<or> (\<exists>v. m = Inr v \<and> f v = Inl e)"
  by (cases m) simp_all

lemma bindE_Inr_iff:
  "bindE m f = Inr v \<longleftrightarrow> (\<exists>u. m = Inr u \<and> f u = Inr v)"
  by (cases m) simp_all

lemma to_string_throws:
  "to_string env v = Inl e \<Longrightarrow> \<exists>msg. e = TypeError msg"
proof (induction v)
  case (JArr xs)
  then have "sequence (map (\<lambda>x. if nullish x then Inr [] else to_string env x) xs) = Inl e"
    by (simp add: bindE_Inl_iff)
  then have "Inl e \<in> set (map (\<lambda>x. if nullish x then Inr [] else to_string env x) xs)"
    by (rule sequence_throws)
  then obtain x where "x \<in> set xs" "to_string env x = Inl e"
    by (auto split: if_splits)
  then show ?case using JArr.IH by blast
next
  case (JObj fs)
  then show ?case by (auto split: if_splits)
qed simp_all

lemma array_join_throws:
  assumes "array_join env sep xs = Inl e"
  shows "\<exists>msg. e = TypeError msg"
proof -
  from assms
  have "sequence (map (\<lambda>x. if nullish x then Inr [] else to_string env x) xs) = Inl e"
    by (simp add: array_join_def bindE_Inl_iff)
  then have "Inl e \<in> set (map (\<lambda>x. if nullish x then Inr [] else to_string env x) xs)"
    by (rule sequence_throws)
  then obtain x where "to_string env x = Inl e"
    by (auto split: if_splits)
  then show ?thesis by (rule to_string_throws)
qed

lemma call_map_throws:
  assumes "call_map expr v f = Inl e"
      and "\<And>x e'. f x = Inl e' \<Longrightarrow> \<exists>msg. e' = TypeError msg"
  shows "\<exists>msg. e = TypeError msg"
proof (cases v)
  case (JArr xs)
  with assms(1) have "Inl e \<in> set (map f xs)"
    using sequence_throws [of "map f xs" e] by simp
  then show ?thesis using assms(2) by auto
qed (use assms(1) in auto)

lemma item_text_throws:
  assumes "item_text env item = Inl e"
  shows "\<exists>msg. e = TypeError msg"
  using assms
  by (auto simp add: item_text_def bindE_Inl_iff split: if_splits
      dest: get_prop_throws array_join_throws
      elim!: call_map_throws [where f = "\<lambda>c. get_prop c ''text''"])

lemma response_text_throws:
  assumes "response_text env r = Inl e"
  shows "\<exists>msg. e = TypeError msg"
  using assms
  by (auto simp add: response_text_def bindE_Inl_iff split: if_splits
      dest: get_prop_throws array_join_throws item_text_throws
      elim!: call_map_throws [where f = "item_text env"])

lemma response_text_string:
  assumes "response_text env r = Inr v"
      and "get_prop r ''output_text'' = Inr t"
      and "nullish t \<or> (\<exists>s. t = JStr s)"
  shows "\<exists>s. v = JStr s"
proof (cases "nullish t")
  case False
  then show ?thesis
    using assms by (auto simp add: response_text_def)
next
  case True
  then show ?thesis
    using assms(1,2)
    by (auto simp add: response_text_def bindE_Inr_iff split: if_splits)
qed

lemma catch_clause_TypeError:
  "catch_clause env (TypeError msg)
     = Inr (JStr (''[OpenAI error: '' @ (if msg = [] then ''Unknown error'' else msg) @ '']''))"
  by (simp add: catch_clause_def error_message_def TypeError_def)

lemma catch_clause_string_messages:
  assumes "\<not> nullish e"
      and "nullish (own_prop (own_prop e ''error'') ''message'')
           \<or> (\<exists>s. own_prop (own_prop e ''error'') ''message'' = JStr s)"
      and "nullish (own_prop e ''message'') \<or> (\<exists>s. own_prop e ''message'' = JStr s)"
  shows "\<exists>s. catch_clause env e = Inr (JStr s)"
  using assms(2,3)
  by (auto simp add: catch_clause_def error_message_object [OF assms(1)]
      elim!: nullish.elims)

text \<open>
  X2. For a valid request whose prompt assembles, when the completion client keeps to its
  interface (the \<^verbatim>\<open>output_text\<close> of a response is a string or missing; what it
  throws is not \<^verbatim>\<open>null\<close> or \<^verbatim>\<open>undefined\<close>, and its messages are strings or
  missing), the handler responds with status 200, \<^verbatim>\<open>ok: true\<close>, model
  \<^verbatim>\<open>gpt-5\<close> and a string as \<^verbatim>\<open>output_text\<close>: also when the call fails, and
  also when the response has a shape the extraction cannot walk.
\<close>

theorem X2_valid_request_responds_200:
  assumes "bodySchema_validate body = Inr (r, p)"
      and "fullPrompt env p = Inr full"
      and "\<forall>resp t. responses_create env
               \<lparr>model = ''gpt-5'', temperature = 7 / 10, max_output_tokens = 1024,
                input = [\<lparr>role = r,
                          content = [\<lparr>part_type = ''text'', part_text = full\<rparr>]\<rparr>]\<rparr> = Inr resp
             \<and> get_prop resp ''output_text'' = Inr t
             \<longrightarrow> nullish t \<or> (\<exists>s. t = JStr s)"
      and "\<forall>e. responses_create env
               \<lparr>model = ''gpt-5'', temperature = 7 / 10, max_output_tokens = 1024,
                input = [\<lparr>role = r,
                          content = [\<lparr>part_type = ''text'', part_text = full\<rparr>]\<rparr>]\<rparr> = Inl e
             \<longrightarrow> \<not> nullish e
               \<and> (nullish (own_prop (own_prop e ''error'') ''message'')
                    \<or> (\<exists>s. own_prop (own_prop e ''error'') ''message'' = JStr s))
               \<and> (nullish (own_prop e ''message'') \<or> (\<exists>s. own_prop e ''message'' = JStr s))"
  shows "\<exists>s. snd (chat_handler env body) =
               Response 200
                 (JObj [(''ok'', JBool True), (''model'', JStr ''gpt-5''),
                        (''output_text'', JStr s), (''usage'', JNull), (''raw'', JNull)])"
proof -
  let ?params = "\<lparr>model = ''gpt-5'', temperature = 7 / 10, max_output_tokens = 1024,
                input = [\<lparr>role = r,
                          content = [\<lparr>part_type = ''text'', part_text = full\<rparr>]\<rparr>]\<rparr>"
  have "\<exists>s. snd (getChatResponse env r p) = Inr (JStr s)"
  proof (cases "responses_create env ?params")
    case (Inl e)
    with assms(4) have "\<exists>s. catch_clause env e = Inr (JStr s)"
      by (intro catch_clause_string_messages) blast+
    then show ?thesis
      using getChatResponse_returns [OF assms(2), of r] Inl by simp
  next
    case (Inr resp)
    show ?thesis
    proof (cases "response_text env resp")
      case (Inl e)
      then obtain msg where "e = TypeError msg"
        using response_text_throws by blast
      then have "\<exists>s. catch_clause env e = Inr (JStr s)"
        by (simp add: catch_clause_TypeError)
      then show ?thesis
        using getChatResponse_returns [OF assms(2), of r] Inr Inl by simp
    next
      case v: (Inr v)
      then obtain t where t: "get_prop resp ''output_text'' = Inr t"
        by (auto simp add: response_text_def bindE_Inr_iff)
      with assms(3) Inr have "nullish t \<or> (\<exists>s. t = JStr s)"
        by blast
      with v t have "\<exists>s. v = JStr s"
        by (rule response_text_string)
      then show ?thesis
        using getChatResponse_returns [OF assms(2), of r] Inr v by simp
    qed
  qed
  then show ?thesis
    using chat_handler_valid(2) [OF assms(1), of env] by auto
qed

text \<open>The example environment: the service answers Hello.\<close>

theorem X2_valid_request_responds_200_witness:
  "snd (chat_handler env_AB_G body_user_P) =
     Response 200
       (JObj [(''ok'', JBool True), (''model'', JStr ''gpt-5''),
              (''output_text'', JStr ''Hello''), (''usage'', JNull), (''raw'', JNull)])"
proof -
  have f: "fullPrompt env_AB_G ''P'' = Inr ''G\<newline>---\<newline>A\<newline>B\<newline>---\<newline>P''"
    by (simp add: env_AB_G_def fullPrompt_AB_G)
  have c: "responses_create env_AB_G params = Inr (JObj [(''output_text'', JStr ''Hello'')])"
    for params
    by (simp add: env_AB_G_def example_readFile service_hello_def)
  have "\<exists>s. snd (chat_handler env_AB_G body_user_P) =
               Response 200
                 (JObj [(''ok'', JBool True), (''model'', JStr ''gpt-5''),
                        (''output_text'', JStr s), (''usage'', JNull), (''raw'', JNull)])"
    by (rule X2_valid_request_responds_200 [OF validate_examples(1) f]) (auto simp add: c)
  moreover have "snd (getChatResponse env_AB_G ''user'' ''P'') = Inr (JStr ''Hello'')"
    using getChatResponse_returns [OF f, of "''user''"] by (simp add: c response_text_def)
  ultimately show ?thesis
    using chat_handler_valid(2) [OF validate_examples(1), of env_AB_G] by simp
qed

end
